theory Spec2Isabelle
  imports Main
begin

section \<open>The ledger: contracts/MedicineAuthenticity.sol\<close>

text \<open>
  The contract keeps a mapping from product identifiers to products and inherits the
  role table of AccessControl. A Solidity mapping is total: a key that was never written
  reads as the zero value of its type, so \<open>products\<close> is a total function and
  \<open>zero_Product\<close> is what an unwritten slot holds. An account is a 160-bit number;
  \<open>block.timestamp\<close> is an unsigned number of seconds.
\<close>

type_synonym address = nat

datatype role = DEFAULT_ADMIN_ROLE | ADMIN_ROLE

record Stage =
  stageName :: string
  authenticator :: address
  timestamp :: nat

record Product =
  productID :: string
  productHash :: string
  stages :: "Stage list"
  exists :: bool

datatype event =
    ProductAdded string string
  | StageAdded string string address

text \<open>
  A call that does not complete reverts: either the \<open>onlyRole\<close> modifier rejects
  the sender, or a \<open>require\<close> fails with its message.
\<close>

datatype revert =
    AccessControlUnauthorizedAccount address role
  | Require string

record contract =
  roles :: "role \<Rightarrow> address \<Rightarrow> bool"
  roleAdmin :: "role \<Rightarrow> role"
  products :: "string \<Rightarrow> Product"
  events :: "event list"

definition zero_Product :: Product where
  "zero_Product = \<lparr>productID = [], productHash = [], stages = [], exists = False\<rparr>"

definition hasRole :: "contract \<Rightarrow> role \<Rightarrow> address \<Rightarrow> bool" where
  "hasRole st r a = roles st r a"

text \<open>
  The constructor grants both roles to the deployer and makes \<open>DEFAULT_ADMIN_ROLE\<close>
  the admin of \<open>ADMIN_ROLE\<close>.
\<close>

definition constructor :: "address \<Rightarrow> contract" where
  "constructor deployer =
     \<lparr>roles = (\<lambda>r a. a = deployer),
      roleAdmin = (\<lambda>r. DEFAULT_ADMIN_ROLE),
      products = (\<lambda>k. zero_Product),
      events = []\<rparr>"

text \<open>
  \<open>addProduct(_productID, _productHash) onlyRole(ADMIN_ROLE)\<close>: the modifier runs first,
  then the three \<open>require\<close>s in the order of the source, then the three field writes and
  the event.
\<close>

definition contract_addProduct ::
  "address \<Rightarrow> string \<Rightarrow> string \<Rightarrow> contract \<Rightarrow> revert + contract" where
  "contract_addProduct sender pid phash st =
     (if \<not> hasRole st ADMIN_ROLE sender
        then Inl (AccessControlUnauthorizedAccount sender ADMIN_ROLE)
      else if \<not> length pid > 0 then Inl (Require ''Product ID cannot be empty'')
      else if \<not> length phash > 0 then Inl (Require ''Product hash cannot be empty'')
      else if exists (products st pid) then Inl (Require ''Product already exists'')
      else Inr (st\<lparr>products := (products st)
                      (pid := (products st pid)
                         \<lparr>productID := pid, productHash := phash, exists := True\<rparr>),
                    events := events st @ [ProductAdded pid phash]\<rparr>))"

text \<open>
  \<open>addStage(_productID, _stageName) onlyRole(ADMIN_ROLE)\<close>: \<open>now\<close> is
  \<open>block.timestamp\<close> of the block that includes the transaction.
\<close>

definition contract_addStage ::
  "address \<Rightarrow> nat \<Rightarrow> string \<Rightarrow> string \<Rightarrow> contract \<Rightarrow> revert + contract" where
  "contract_addStage sender now pid sname st =
     (if \<not> hasRole st ADMIN_ROLE sender
        then Inl (AccessControlUnauthorizedAccount sender ADMIN_ROLE)
      else if \<not> length sname > 0 then Inl (Require ''Stage name cannot be empty'')
      else if \<not> exists (products st pid) then Inl (Require ''Product does not exist'')
      else Inr (st\<lparr>products := (products st)
                      (pid := (products st pid)
                         \<lparr>stages := stages (products st pid) @
                            [\<lparr>stageName = sname, authenticator = sender, timestamp = now\<rparr>]\<rparr>),
                    events := events st @ [StageAdded pid sname sender]\<rparr>))"

text \<open>\<open>grantRole(role, account)\<close> of AccessControl, gated by the role's admin role.\<close>

definition grantRole :: "address \<Rightarrow> role \<Rightarrow> address \<Rightarrow> contract \<Rightarrow> revert + contract" where
  "grantRole sender r account st =
     (if \<not> hasRole st (roleAdmin st r) sender
        then Inl (AccessControlUnauthorizedAccount sender (roleAdmin st r))
      else Inr (st\<lparr>roles := (roles st)(r := (roles st r)(account := True))\<rparr>))"

text \<open>The three view functions.\<close>

definition getProductHash :: "contract \<Rightarrow> string \<Rightarrow> revert + string" where
  "getProductHash st pid =
     (if \<not> exists (products st pid) then Inl (Require ''Product does not exist'')
      else Inr (productHash (products st pid)))"

definition contract_getProductHistory :: "contract \<Rightarrow> string \<Rightarrow> revert + Stage list" where
  "contract_getProductHistory st pid =
     (if \<not> exists (products st pid) then Inl (Require ''Product does not exist'')
      else Inr (stages (products st pid)))"

definition productExists :: "contract \<Rightarrow> string \<Rightarrow> revert + bool" where
  "productExists st pid = Inr (exists (products st pid))"

subsection \<open>Transactions\<close>

text \<open>
  A transaction that reverts leaves the contract's storage as it was; one that completes
  installs the storage it computed. A history of the ledger is a list of transactions,
  each with its sender and the timestamp of its block, applied in order to the state the
  constructor leaves.
\<close>

datatype tx =
    AddProduct string string
  | AddStage string string
  | GrantRole role address

record call =
  msg_sender :: address
  block_timestamp :: nat
  call_tx :: tx

definition call_result :: "call \<Rightarrow> contract \<Rightarrow> revert + contract" where
  "call_result c st =
     (case call_tx c of
        AddProduct pid phash \<Rightarrow> contract_addProduct (msg_sender c) pid phash st
      | AddStage pid sname \<Rightarrow> contract_addStage (msg_sender c) (block_timestamp c) pid sname st
      | GrantRole r a \<Rightarrow> grantRole (msg_sender c) r a st)"

definition transact :: "call \<Rightarrow> contract \<Rightarrow> contract" where
  "transact c st = (case call_result c st of Inl r \<Rightarrow> st | Inr st' \<Rightarrow> st')"

definition run :: "contract \<Rightarrow> call list \<Rightarrow> contract" where
  "run st cs = foldl (\<lambda>s c. transact c s) st cs"


text \<open>
  What a history has done to one product: \<open>completed\<close> says that a call does not
  revert in a state, \<open>registered_by\<close> that some \<open>addProduct\<close> for the product
  completed along the history, and \<open>stage_log\<close> lists the stage events of the
  \<open>addStage\<close> calls for the product that completed, in the order of the history.
\<close>

definition completed :: "call \<Rightarrow> contract \<Rightarrow> bool" where
  "completed c st = (case call_result c st of Inl r \<Rightarrow> False | Inr st' \<Rightarrow> True)"

fun registered_by :: "contract \<Rightarrow> call list \<Rightarrow> string \<Rightarrow> bool" where
  "registered_by st [] pid = False"
| "registered_by st (c # cs) pid =
     ((case call_tx c of AddProduct p h \<Rightarrow> p = pid \<and> completed c st | _ \<Rightarrow> False)
      \<or> registered_by (transact c st) cs pid)"

definition stage_of :: "call \<Rightarrow> contract \<Rightarrow> string \<Rightarrow> Stage list" where
  "stage_of c st pid =
     (case call_tx c of
        AddStage p n \<Rightarrow>
          if p = pid \<and> completed c st
          then [\<lparr>stageName = n, authenticator = msg_sender c, timestamp = block_timestamp c\<rparr>]
          else []
      | _ \<Rightarrow> [])"

fun stage_log :: "contract \<Rightarrow> call list \<Rightarrow> string \<Rightarrow> Stage list" where
  "stage_log st [] pid = []"
| "stage_log st (c # cs) pid = stage_of c st pid @ stage_log (transact c st) cs pid"

section \<open>The fingerprint: keccak256 of the ABI encoding of five strings\<close>

text \<open>
  Both \<open>addProduct\<close> and \<open>verifyProduct\<close> of the command-line client compute
  \<open>ethers.keccak256(abiCoder.encode(["string", "string", "string", "string", "string"],
  [...]))\<close>. A string is its list of UTF-8 bytes, and a byte is a \<open>char\<close>. The ABI
  encoding of a tuple of dynamic strings is a head of one 32-byte offset per string,
  followed by a tail per string: the 32-byte length and the bytes, padded with zeros to a
  multiple of 32. A \<open>uint256\<close> is written big-endian and holds its argument modulo
  \<open>2 ^ 256\<close>.
\<close>

type_synonym bytes = string

fun be_bytes :: "nat \<Rightarrow> nat \<Rightarrow> bytes" where
  "be_bytes 0 n = []"
| "be_bytes (Suc k) n = be_bytes k (n div 256) @ [char_of (n mod 256)]"

definition uint256 :: "nat \<Rightarrow> bytes" where
  "uint256 n = be_bytes 32 n"

definition pad_right :: "bytes \<Rightarrow> bytes" where
  "pad_right s = s @ replicate ((32 - length s mod 32) mod 32) (CHR 0x00)"

definition enc_string :: "string \<Rightarrow> bytes" where
  "enc_string s = uint256 (length s) @ pad_right s"

fun heads :: "nat \<Rightarrow> bytes list \<Rightarrow> bytes" where
  "heads off [] = []"
| "heads off (t # ts) = uint256 off @ heads (off + length t) ts"

definition abi_encode :: "string list \<Rightarrow> bytes" where
  "abi_encode ss = heads (32 * length ss) (map enc_string ss) @ concat (map enc_string ss)"

section \<open>The platform the client runs on\<close>

text \<open>
  The client uses \<open>ethers.keccak256\<close> and the \<open>Date\<close> built-in of the JavaScript
  engine; neither is code of the repository, so both are parameters of the model. A time
  value is a number of milliseconds since the epoch; a \<open>Date\<close> is \<open>Some\<close> time
  value, or \<open>None\<close> when it is an Invalid Date. \<open>Date_parse\<close> is \<open>new Date(string)\<close>,
  \<open>Date_toISOString\<close> formats a valid time value, \<open>Date_getFullYear\<close> and
  \<open>Date_setFullYear\<close> read and replace the year in local time (the latter may leave
  the range of time values and so give an Invalid Date).
\<close>

record platform =
  keccak256 :: "bytes \<Rightarrow> string"
  Date_toISOString :: "int \<Rightarrow> string"
  Date_parse :: "string \<Rightarrow> int option"
  Date_getFullYear :: "int \<Rightarrow> int"
  Date_setFullYear :: "int \<Rightarrow> int \<Rightarrow> int option"

section \<open>The metadata store\<close>

text \<open>
  One row of the table \<open>products\<close> of the README: \<open>product_id\<close> is the primary key,
  every column is text.
\<close>

record row =
  product_id :: string
  product_type :: string
  batch_number :: string
  manufacturing_date :: string
  expiry_date :: string
  product_hash :: string

section \<open>The command-line client\<close>

text \<open>
  Everything the client throws is an \<open>error\<close>: an \<open>Error\<close> it constructs itself,
  the \<open>RangeError\<close> of \<open>toISOString\<close> on an Invalid Date, a revert of the contract as
  the ledger client reports it, a rejection of the ledger client or of the store client
  for a reason of their own (with the message they give), and the store's refusal of a
  second row for a primary key.
\<close>

datatype error =
    Error string
  | RangeError
  | CallException revert
  | LedgerFault string
  | StoreConflict
  | StoreFault string

text \<open>
  \<open>error.message\<close>. The client reads it in one place only, after
  \<open>contract.productExists\<close>, where the error is its own \<open>Error\<close> or a rejection of
  the ledger client.
\<close>

fun message :: "error \<Rightarrow> string" where
  "message (Error m) = m"
| "message RangeError = ''Invalid time value''"
| "message (CallException (Require m)) = ''execution reverted: '' @ m"
| "message (CallException (AccessControlUnauthorizedAccount a r)) =
     ''execution reverted (unknown custom error)''"
| "message (LedgerFault m) = m"
| "message StoreConflict = ''duplicate key value violates unique constraint''"
| "message (StoreFault m) = m"

text \<open>\<open>String.prototype.includes\<close>.\<close>

fun starts_with :: "string \<Rightarrow> string \<Rightarrow> bool" where
  "starts_with s [] = True"
| "starts_with [] (p # ps) = False"
| "starts_with (c # cs) (p # ps) = (c = p \<and> starts_with cs ps)"

fun str_includes :: "string \<Rightarrow> string \<Rightarrow> bool" where
  "str_includes [] p = (p = [])"
| "str_includes (c # cs) p = (starts_with (c # cs) p \<or> str_includes cs p)"

text \<open>
  The requests the client sends over its two boundaries. The world is the ledger, the
  table, and the requests sent so far, oldest first. The environment of one command gives
  the clock, the account of the wallet that signs, and for every request whether the
  boundary answers it (\<open>None\<close>) or rejects it with a message of its own.
\<close>

datatype request =
    Call_productExists string
  | Send_addProduct string string
  | Call_getProductHash string
  | Query_INSERT row
  | Query_SELECT string

record world =
  chain :: contract
  db :: "row list"
  trace :: "request list"

record env =
  clock :: int
  wallet :: address
  fault :: "request \<Rightarrow> string option"

definition sent :: "request \<Rightarrow> world \<Rightarrow> world" where
  "sent r w = w\<lparr>trace := trace w @ [r]\<rparr>"

text \<open>\<open>await contract.productExists(productID)\<close>\<close>

definition await_productExists :: "env \<Rightarrow> string \<Rightarrow> world \<Rightarrow> (error + bool) \<times> world" where
  "await_productExists e pid w =
     (case fault e (Call_productExists pid) of
        Some m \<Rightarrow> (Inl (LedgerFault m), sent (Call_productExists pid) w)
      | None \<Rightarrow>
          (case productExists (chain w) pid of
             Inl r \<Rightarrow> (Inl (CallException r), sent (Call_productExists pid) w)
           | Inr b \<Rightarrow> (Inr b, sent (Call_productExists pid) w)))"

text \<open>
  \<open>const tx = await contract.addProduct(productID, productHash); await tx.wait()\<close>:
  the wallet is the sender; a revert leaves the ledger as it was.
\<close>

definition await_addProduct :: "env \<Rightarrow> string \<Rightarrow> string \<Rightarrow> world \<Rightarrow> (error + unit) \<times> world" where
  "await_addProduct e pid phash w =
     (case fault e (Send_addProduct pid phash) of
        Some m \<Rightarrow> (Inl (LedgerFault m), sent (Send_addProduct pid phash) w)
      | None \<Rightarrow>
          (case contract_addProduct (wallet e) pid phash (chain w) of
             Inl r \<Rightarrow> (Inl (CallException r), sent (Send_addProduct pid phash) w)
           | Inr st' \<Rightarrow> (Inr (), sent (Send_addProduct pid phash) (w\<lparr>chain := st'\<rparr>))))"

text \<open>\<open>await contract.getProductHash(productID)\<close>\<close>

definition await_getProductHash :: "env \<Rightarrow> string \<Rightarrow> world \<Rightarrow> (error + string) \<times> world" where
  "await_getProductHash e pid w =
     (case fault e (Call_getProductHash pid) of
        Some m \<Rightarrow> (Inl (LedgerFault m), sent (Call_getProductHash pid) w)
      | None \<Rightarrow>
          (case getProductHash (chain w) pid of
             Inl r \<Rightarrow> (Inl (CallException r), sent (Call_getProductHash pid) w)
           | Inr h \<Rightarrow> (Inr h, sent (Call_getProductHash pid) w)))"

text \<open>
  Modelled from the spec: \<open>db.query\<close> of the module \<open>./db\<close>, which is not among the
  source files. \<open>Insert(record)\<close> fails with a conflict if the \<open>productID\<close> is already
  present and otherwise stores the record as given; \<open>Get(productID)\<close> reads the latest
  committed rows with that key.
\<close>

definition await_INSERT :: "env \<Rightarrow> row \<Rightarrow> world \<Rightarrow> (error + unit) \<times> world" where
  "await_INSERT e r w =
     (case fault e (Query_INSERT r) of
        Some m \<Rightarrow> (Inl (StoreFault m), sent (Query_INSERT r) w)
      | None \<Rightarrow>
          (if product_id r \<in> set (map product_id (db w))
           then (Inl StoreConflict, sent (Query_INSERT r) w)
           else (Inr (), sent (Query_INSERT r) (w\<lparr>db := db w @ [r]\<rparr>))))"

definition await_SELECT :: "env \<Rightarrow> string \<Rightarrow> world \<Rightarrow> (error + row list) \<times> world" where
  "await_SELECT e pid w =
     (case fault e (Query_SELECT pid) of
        Some m \<Rightarrow> (Inl (StoreFault m), sent (Query_SELECT pid) w)
      | None \<Rightarrow> (Inr (filter (\<lambda>r. product_id r = pid) (db w)), sent (Query_SELECT pid) w))"

text \<open>\<open>date.toISOString()\<close>: throws a \<open>RangeError\<close> on an Invalid Date.\<close>

definition toISOString :: "platform \<Rightarrow> int option \<Rightarrow> error + string" where
  "toISOString P d = (case d of None \<Rightarrow> Inl RangeError | Some t \<Rightarrow> Inr (Date_toISOString P t))"

text \<open>
  The hash of both functions: \<open>ethers.keccak256\<close> of the encoding of the five strings.
\<close>

definition calculateHash ::
  "platform \<Rightarrow> string \<Rightarrow> string \<Rightarrow> string \<Rightarrow> string \<Rightarrow> string \<Rightarrow> string" where
  "calculateHash P pid ptype batch mfg expiry =
     keccak256 P (abi_encode [pid, ptype, batch, mfg, expiry])"

text \<open>
  The inner \<open>try\<close> of \<open>addProduct\<close>: the client throws its own \<open>Error\<close> when the
  ledger has the product, and the \<open>catch\<close> rethrows only an error whose message does
  not include \<open>Product\<close>.
\<close>

definition exists_check :: "env \<Rightarrow> string \<Rightarrow> world \<Rightarrow> (error + unit) \<times> world" where
  "exists_check e pid w =
     (case (case await_productExists e pid w of
              (Inl err, w1) \<Rightarrow> (Inl err, w1)
            | (Inr ex, w1) \<Rightarrow>
                if ex
                then (Inl (Error (''Product '' @ pid @ '' already exists on blockchain'')), w1)
                else (Inr (), w1)) of
        (Inl err, w1) \<Rightarrow> if \<not> str_includes (message err) ''Product'' then (Inl err, w1) else (Inr (), w1)
      | (Inr u, w1) \<Rightarrow> (Inr (), w1))"

record added =
  added_productID :: string
  added_productHash :: string

text \<open>
  \<open>addProduct(productID, productType, batchNumber)\<close>. The outer \<open>catch\<close> logs the
  message and rethrows the error it caught, so the function fails with the error of the
  step that failed. A missing command-line argument is \<open>undefined\<close>, which the first
  test rejects as it rejects the empty string.
\<close>

definition addProduct ::
  "platform \<Rightarrow> env \<Rightarrow> string \<Rightarrow> string \<Rightarrow> string \<Rightarrow> world \<Rightarrow> (error + added) \<times> world" where
  "addProduct P e pid ptype batch w =
     (if pid = [] \<or> ptype = [] \<or> batch = []
      then (Inl (Error ''Product ID, Type, and batch number are required''), w)
      else
        (case toISOString P (Some (clock e)) of
           Inl err \<Rightarrow> (Inl err, w)
         | Inr mfgDateStr \<Rightarrow>
        (case toISOString P
                (Date_setFullYear P (clock e) (Date_getFullYear P (clock e) + 2)) of
           Inl err \<Rightarrow> (Inl err, w)
         | Inr expiryDateStr \<Rightarrow>
        (case exists_check e pid w of
           (Inl err, w1) \<Rightarrow> (Inl err, w1)
         | (Inr u1, w1) \<Rightarrow>
        (case await_addProduct e pid
                (calculateHash P pid ptype batch mfgDateStr expiryDateStr) w1 of
           (Inl err, w2) \<Rightarrow> (Inl err, w2)
         | (Inr u2, w2) \<Rightarrow>
        (case await_INSERT e
                \<lparr>product_id = pid, product_type = ptype,
                 batch_number = batch, manufacturing_date = mfgDateStr,
                 expiry_date = expiryDateStr,
                 product_hash =
                   calculateHash P pid ptype batch mfgDateStr expiryDateStr\<rparr>
                w2 of
           (Inl err, w3) \<Rightarrow> (Inl err, w3)
         | (Inr u3, w3) \<Rightarrow>
             (Inr \<lparr>added_productID = pid,
                   added_productHash =
                     calculateHash P pid ptype batch mfgDateStr expiryDateStr\<rparr>,
              w3)))))))"

record verificationResult =
  vr_productID :: string
  isAuthentic :: bool
  databaseHash :: string
  blockchainHash :: string
  metadata :: row

text \<open>
  \<open>verifyProduct(productID)\<close>: \<open>metadata\<close> is the first row of the result; the two
  dates of the row go through \<open>new Date(...).toISOString()\<close>, the manufacturing date
  first.
\<close>

definition verifyProduct ::
  "platform \<Rightarrow> env \<Rightarrow> string \<Rightarrow> world \<Rightarrow> (error + verificationResult) \<times> world" where
  "verifyProduct P e pid w =
     (if pid = [] then (Inl (Error ''Product ID is required''), w)
      else
        (case await_SELECT e pid w of
           (Inl err, w1) \<Rightarrow> (Inl err, w1)
         | (Inr rows, w1) \<Rightarrow>
        (case rows of
           [] \<Rightarrow> (Inl (Error (''Product '' @ pid @ '' not found in database'')), w1)
         | md # rest \<Rightarrow>
        (case await_getProductHash e pid w1 of
           (Inl err, w2) \<Rightarrow> (Inl err, w2)
         | (Inr bcHash, w2) \<Rightarrow>
        (case toISOString P (Date_parse P (manufacturing_date md)) of
           Inl err \<Rightarrow> (Inl err, w2)
         | Inr mfg \<Rightarrow>
        (case toISOString P (Date_parse P (expiry_date md)) of
           Inl err \<Rightarrow> (Inl err, w2)
         | Inr expiry \<Rightarrow>
             (Inr \<lparr>vr_productID = pid,
                   isAuthentic =
                     (calculateHash P (product_id md) (product_type md) (batch_number md)
                        mfg expiry = bcHash),
                   databaseHash =
                     calculateHash P (product_id md) (product_type md) (batch_number md)
                       mfg expiry,
                   blockchainHash = bcHash,
                   metadata = md\<rparr>,
              w2)))))))"

text \<open>
  What the claims about the two dates rest on: the engine parses an ISO string it
  produced back to a date that it formats as the same string.
\<close>

definition roundtrips :: "platform \<Rightarrow> string \<Rightarrow> bool" where
  "roundtrips P s = (toISOString P (Date_parse P s) = Inr s)"

section \<open>A reference platform\<close>

text \<open>
  To evaluate the client on concrete inputs, one platform is written out. Its dates
  follow ECMAScript with UTC as the local time zone: \<open>utc_toISOString\<close> is
  \<open>Date.prototype.toISOString\<close> (the year with four digits, or a sign and six digits
  outside 0..9999), \<open>iso_parse\<close> reads exactly that 24-character format back and gives
  an Invalid Date for every other string (engines also accept other formats, each in its
  own way), and \<open>utc_setFullYear\<close> keeps month, day and time of day, with the range of
  time values of ECMAScript. The calendar is the proleptic Gregorian one, by days since
  the epoch. In place of keccak256 it has an injective stand-in, the encoded bytes behind
  the prefix \<open>0x\<close>: no property below depends on more of the hash than its being a
  function.
\<close>

definition days_from_civil :: "int \<Rightarrow> int \<Rightarrow> int \<Rightarrow> int" where
  "days_from_civil y m d =
     (let y' = (if m \<le> 2 then y - 1 else y);
          era = y' div 400;
          yoe = y' mod 400;
          doy = (153 * (if m > 2 then m - 3 else m + 9) + 2) div 5 + d - 1;
          doe = yoe * 365 + yoe div 4 - yoe div 100 + doy
      in era * 146097 + doe - 719468)"

definition civil_from_days :: "int \<Rightarrow> int \<times> int \<times> int" where
  "civil_from_days z =
     (let z' = z + 719468;
          era = z' div 146097;
          doe = z' mod 146097;
          yoe = (doe - doe div 1460 + doe div 36524 - doe div 146096) div 365;
          doy = doe - (365 * yoe + yoe div 4 - yoe div 100);
          mp = (5 * doy + 2) div 153;
          d = doy - (153 * mp + 2) div 5 + 1;
          m = (if mp < 10 then mp + 3 else mp - 9)
      in (yoe + era * 400 + (if m \<le> 2 then 1 else 0), m, d))"

definition days_in_month :: "int \<Rightarrow> int \<Rightarrow> int" where
  "days_in_month y m =
     days_from_civil (if m = 12 then y + 1 else y) (if m = 12 then 1 else m + 1) 1
       - days_from_civil y m 1"

fun digits :: "nat \<Rightarrow> nat \<Rightarrow> string" where
  "digits 0 n = []"
| "digits (Suc k) n = digits k (n div 10) @ [char_of (48 + n mod 10)]"

fun number :: "nat \<Rightarrow> string \<Rightarrow> nat option" where
  "number acc [] = Some acc"
| "number acc (c # cs) =
     (if 48 \<le> (of_char c :: nat) \<and> (of_char c :: nat) \<le> 57
      then number (10 * acc + (of_char c - 48)) cs else None)"

definition utc_toISOString :: "int \<Rightarrow> string" where
  "utc_toISOString t =
     (case civil_from_days (t div 86400000) of
        (y, m, d) \<Rightarrow>
          (if 0 \<le> y \<and> y \<le> 9999 then digits 4 (nat y)
           else (if y < 0 then ''-'' else ''+'') @ digits 6 (nat \<bar>y\<bar>))
          @ ''-'' @ digits 2 (nat m) @ ''-'' @ digits 2 (nat d)
          @ ''T'' @ digits 2 (nat (t mod 86400000 div 3600000))
          @ '':'' @ digits 2 (nat (t mod 3600000 div 60000))
          @ '':'' @ digits 2 (nat (t mod 60000 div 1000))
          @ ''.'' @ digits 3 (nat (t mod 1000)) @ ''Z'')"

definition iso_parse :: "string \<Rightarrow> int option" where
  "iso_parse s =
     (if length s = 24 \<and> s ! 4 = CHR ''-'' \<and> s ! 7 = CHR ''-'' \<and> s ! 10 = CHR ''T''
         \<and> s ! 13 = CHR '':'' \<and> s ! 16 = CHR '':'' \<and> s ! 19 = CHR ''.'' \<and> s ! 23 = CHR ''Z''
      then
        (case (number 0 (take 4 s), number 0 (take 2 (drop 5 s)), number 0 (take 2 (drop 8 s)),
               number 0 (take 2 (drop 11 s)), number 0 (take 2 (drop 14 s)),
               number 0 (take 2 (drop 17 s)), number 0 (take 3 (drop 20 s))) of
           (Some y, Some m, Some d, Some h, Some mi, Some sec, Some ms) \<Rightarrow>
             if 1 \<le> m \<and> m \<le> 12 \<and> 1 \<le> d \<and> int d \<le> days_in_month (int y) (int m)
                \<and> h \<le> 23 \<and> mi \<le> 59 \<and> sec \<le> 59
             then Some (days_from_civil (int y) (int m) (int d) * 86400000
                        + int h * 3600000 + int mi * 60000 + int sec * 1000 + int ms)
             else None
         | _ \<Rightarrow> None)
      else None)"

definition utc_getFullYear :: "int \<Rightarrow> int" where
  "utc_getFullYear t = fst (civil_from_days (t div 86400000))"

definition utc_setFullYear :: "int \<Rightarrow> int \<Rightarrow> int option" where
  "utc_setFullYear t y =
     (case civil_from_days (t div 86400000) of
        (y0, m, d) \<Rightarrow>
          (let t' = days_from_civil y m d * 86400000 + t mod 86400000
           in if \<bar>t'\<bar> \<le> 8640000000000000 then Some t' else None))"

definition reference_platform :: platform where
  "reference_platform =
     \<lparr>keccak256 = (\<lambda>bs. ''0x'' @ bs),
      Date_toISOString = utc_toISOString,
      Date_parse = iso_parse,
      Date_getFullYear = utc_getFullYear,
      Date_setFullYear = utc_setFullYear\<rparr>"

text \<open>
  A fresh world whose ledger was deployed by account 1, and the environment of a
  command run by the deployer's wallet on 2025-06-15 at 15:06:40 UTC with both boundaries
  answering.
\<close>

definition fresh_world :: world where
  "fresh_world = \<lparr>chain = constructor 1, db = [], trace = []\<rparr>"

definition calm_env :: env where
  "calm_env = \<lparr>clock = 1750000000000, wallet = 1, fault = (\<lambda>r. None)\<rparr>"

text \<open>
  The worlds and environments of the specification's examples. \<open>aspirin_hash\<close> and
  \<open>aspirin_row\<close> are the fingerprint and the row of \<open>Register("P1", "Aspirin",
  "B001")\<close> at the clock of \<open>calm_env\<close>; \<open>registered_world\<close> is the world after
  that registration; in \<open>tampered_world\<close> the product type of the row was changed out of
  band; \<open>outsider_env\<close> runs the command with a wallet that holds no role; in
  \<open>store_down_env\<close> the store client rejects every query; \<open>stale_store_world\<close> has a
  fresh ledger over a table that still holds the row (the ledger was restarted and the
  table was not cleared).
\<close>

definition aspirin_hash :: string where
  "aspirin_hash = calculateHash reference_platform ''P1'' ''Aspirin'' ''B001''
     ''2025-06-15T15:06:40.000Z'' ''2027-06-15T15:06:40.000Z''"

definition aspirin_row :: row where
  "aspirin_row =
     \<lparr>product_id = ''P1'', product_type = ''Aspirin'', batch_number = ''B001'',
      manufacturing_date = ''2025-06-15T15:06:40.000Z'',
      expiry_date = ''2027-06-15T15:06:40.000Z'',
      product_hash = aspirin_hash\<rparr>"

definition registered_world :: world where
  "registered_world =
     \<lparr>chain = (constructor 1)
        \<lparr>products := (products (constructor 1))
           (''P1'' := \<lparr>productID = ''P1'', productHash = aspirin_hash, stages = [],
                       exists = True\<rparr>),
         events := [ProductAdded ''P1'' aspirin_hash]\<rparr>,
      db = [aspirin_row],
      trace = [Call_productExists ''P1'', Send_addProduct ''P1'' aspirin_hash,
               Query_INSERT aspirin_row]\<rparr>"

definition tampered_world :: world where
  "tampered_world = registered_world\<lparr>db := [aspirin_row\<lparr>product_type := ''Ibuprofen''\<rparr>]\<rparr>"

definition outsider_env :: env where
  "outsider_env = calm_env\<lparr>wallet := 2\<rparr>"

definition store_down_env :: env where
  "store_down_env =
     calm_env\<lparr>fault := (\<lambda>r. case r of
                   Query_INSERT x \<Rightarrow> Some ''Connection terminated unexpectedly''
                 | Query_SELECT x \<Rightarrow> Some ''Connection terminated unexpectedly''
                 | _ \<Rightarrow> None)\<rparr>"

definition stale_store_world :: world where
  "stale_store_world = fresh_world\<lparr>db := [aspirin_row]\<rparr>"

text \<open>Reading a big-endian number back, to show that \<open>uint256\<close> loses nothing below \<open>2 ^ 256\<close>.\<close>

definition be_nat :: "bytes \<Rightarrow> nat" where
  "be_nat bs = foldl (\<lambda>a c. a * 256 + of_char c) 0 bs"

section \<open>Properties of the ledger\<close>

lemma run_Nil: "run st [] = st"
  by (simp add: run_def)

lemma run_snoc: "run st (cs @ [c]) = transact c (run st cs)"
  by (simp add: run_def)

lemma run_append: "run st (cs @ ds) = run (run st cs) ds"
  by (simp add: run_def)

lemma run_Cons: "run st (c # cs) = run (transact c st) cs"
  by (simp add: run_def)

lemma exists_transact:
  "exists (products (transact c st) pid) =
     (exists (products st pid) \<or>
      (case call_tx c of AddProduct p h \<Rightarrow> p = pid \<and> completed c st | _ \<Rightarrow> False))"
  by (cases "call_tx c")
     (auto simp: transact_def call_result_def completed_def contract_addProduct_def
        contract_addStage_def grantRole_def split: if_splits)

lemma exists_run:
  "exists (products (run st cs) pid) = (exists (products st pid) \<or> registered_by st cs pid)"
  by (induction cs arbitrary: st) (auto simp: run_Nil run_Cons exists_transact)

lemma exists_constructor: "exists (products (constructor d) pid) = False"
  by (simp add: constructor_def zero_Product_def)

lemma stages_constructor: "stages (products (constructor d) pid) = []"
  by (simp add: constructor_def zero_Product_def)

lemma not_registered_empty: "\<not> registered_by st cs []"
  by (induction cs arbitrary: st)
     (auto simp: completed_def call_result_def contract_addProduct_def split: tx.splits)

lemma stages_transact:
  "stages (products (transact c st) pid) = stages (products st pid) @ stage_of c st pid"
  by (cases "call_tx c")
     (auto simp: transact_def call_result_def completed_def contract_addProduct_def
        contract_addStage_def grantRole_def stage_of_def split: if_splits)

lemma stages_run:
  "stages (products (run st cs) pid) = stages (products st pid) @ stage_log st cs pid"
  by (induction cs arbitrary: st) (auto simp: run_Nil run_Cons stages_transact)

lemma stage_log_snoc:
  "stage_log st (cs @ [c]) pid = stage_log st cs pid @ stage_of c (run st cs) pid"
  by (induction cs arbitrary: st) (auto simp: run_Nil run_Cons)

lemma stage_of_timestamp:
  "s \<in> set (stage_of c st pid) \<Longrightarrow> timestamp s = block_timestamp c"
  by (auto simp: stage_of_def split: tx.splits if_splits)

lemma stage_log_timestamps:
  "s \<in> set (stage_log st cs pid) \<Longrightarrow> timestamp s \<in> block_timestamp ` set cs"
  by (induction cs arbitrary: st) (auto dest: stage_of_timestamp)

lemma sorted_stage_of: "sorted (map timestamp (stage_of c st pid))"
  by (auto simp: stage_of_def split: tx.splits)

lemma sorted_stage_log:
  "sorted (map block_timestamp cs) \<Longrightarrow> sorted (map timestamp (stage_log st cs pid))"
proof (induction cs arbitrary: st)
  case Nil
  then show ?case by simp
next
  case (Cons c cs)
  have rest: "sorted (map timestamp (stage_log (transact c st) cs pid))"
    using Cons by simp
  have le: "\<forall>x\<in>set (stage_of c st pid). \<forall>y\<in>set (stage_log (transact c st) cs pid).
              timestamp x \<le> timestamp y"
  proof (intro ballI)
    fix x y
    assume x: "x \<in> set (stage_of c st pid)"
      and y: "y \<in> set (stage_log (transact c st) cs pid)"
    from y have "timestamp y \<in> block_timestamp ` set cs" by (rule stage_log_timestamps)
    with Cons.prems have "block_timestamp c \<le> timestamp y" by auto
    with x show "timestamp x \<le> timestamp y" by (simp add: stage_of_timestamp)
  qed
  show ?case
    using rest le sorted_stage_of [of c st pid] by (auto simp: sorted_append)
qed

lemma stage_log_no_addStage:
  "\<forall>c\<in>set cs. \<forall>n. call_tx c \<noteq> AddStage pid n \<Longrightarrow> stage_log st cs pid = []"
  by (induction cs arbitrary: st) (auto simp: stage_of_def split: tx.splits)

text \<open>
  C8. On the ledger reached by any history from the constructor, \<open>getProductHistory\<close>
  of a registered product returns exactly the stage events of the completed
  \<open>addStage\<close> calls for it, in the order in which they were applied; one more call
  only appends at the end; when the block timestamps of the history do not decrease,
  neither do the timestamps returned; and with no \<open>addStage\<close> call for the product the
  sequence is empty.
\<close>

theorem history_in_insertion_order:
  "contract_getProductHistory (run (constructor d) cs) pid =
     (if registered_by (constructor d) cs pid
      then Inr (stage_log (constructor d) cs pid)
      else Inl (Require ''Product does not exist''))
   \<and> stage_log (constructor d) (cs @ [c]) pid =
       stage_log (constructor d) cs pid @ stage_of c (run (constructor d) cs) pid
   \<and> (sorted (map block_timestamp cs) \<longrightarrow>
        sorted (map timestamp (stage_log (constructor d) cs pid)))
   \<and> ((\<forall>c\<in>set cs. \<forall>n. call_tx c \<noteq> AddStage pid n) \<longrightarrow>
        stage_log (constructor d) cs pid = [])"
proof (intro conjI impI)
  show "contract_getProductHistory (run (constructor d) cs) pid =
     (if registered_by (constructor d) cs pid
      then Inr (stage_log (constructor d) cs pid)
      else Inl (Require ''Product does not exist''))"
    by (simp add: contract_getProductHistory_def exists_run stages_run exists_constructor
        stages_constructor)
  show "stage_log (constructor d) (cs @ [c]) pid =
       stage_log (constructor d) cs pid @ stage_of c (run (constructor d) cs) pid"
    by (rule stage_log_snoc)
  show "sorted (map timestamp (stage_log (constructor d) cs pid))"
    if "sorted (map block_timestamp cs)"
    using that by (rule sorted_stage_log)
  show "stage_log (constructor d) cs pid = []"
    if "\<forall>c\<in>set cs. \<forall>n. call_tx c \<noteq> AddStage pid n"
    using that by (rule stage_log_no_addStage)
qed

text \<open>
  The history of the specification's example: the deployer registers \<open>P1\<close>, then adds
  the stages \<open>Packaged\<close> and \<open>Shipped\<close>; a product with no stage yet has the empty
  history.
\<close>

theorem history_in_insertion_order_witness:
  "sorted (map block_timestamp
       [\<lparr>msg_sender = 1, block_timestamp = 100, call_tx = AddProduct ''P1'' ''0xab''\<rparr>,
        \<lparr>msg_sender = 1, block_timestamp = 160, call_tx = AddStage ''P1'' ''Packaged''\<rparr>,
        \<lparr>msg_sender = 1, block_timestamp = 172, call_tx = AddStage ''P1'' ''Shipped''\<rparr>])
   \<and> contract_getProductHistory
        (run (constructor 1)
          [\<lparr>msg_sender = 1, block_timestamp = 100, call_tx = AddProduct ''P1'' ''0xab''\<rparr>,
           \<lparr>msg_sender = 1, block_timestamp = 160, call_tx = AddStage ''P1'' ''Packaged''\<rparr>,
           \<lparr>msg_sender = 1, block_timestamp = 172, call_tx = AddStage ''P1'' ''Shipped''\<rparr>])
        ''P1''
      = Inr [\<lparr>stageName = ''Packaged'', authenticator = 1, timestamp = 160\<rparr>,
             \<lparr>stageName = ''Shipped'', authenticator = 1, timestamp = 172\<rparr>]
   \<and> filter (\<lambda>c. \<exists>n. call_tx c = AddStage ''P1'' n)
        [\<lparr>msg_sender = 1, block_timestamp = 100, call_tx = AddProduct ''P1'' ''0xab''\<rparr>] = []
   \<and> contract_getProductHistory
        (run (constructor 1)
          [\<lparr>msg_sender = 1, block_timestamp = 100, call_tx = AddProduct ''P1'' ''0xab''\<rparr>])
        ''P1''
      = Inr []"
proof -
  let ?a = "\<lparr>msg_sender = 1, block_timestamp = 100, call_tx = AddProduct ''P1'' ''0xab''\<rparr>"
  let ?b = "\<lparr>msg_sender = 1, block_timestamp = 160, call_tx = AddStage ''P1'' ''Packaged''\<rparr>"
  let ?c = "\<lparr>msg_sender = 1, block_timestamp = 172, call_tx = AddStage ''P1'' ''Shipped''\<rparr>"
  have reg: "registered_by (constructor 1) [?a, ?b, ?c] ''P1''"
    by (simp add: completed_def call_result_def contract_addProduct_def hasRole_def
        constructor_def zero_Product_def)
  have reg1: "registered_by (constructor 1) [?a] ''P1''"
    by (simp add: completed_def call_result_def contract_addProduct_def hasRole_def
        constructor_def zero_Product_def)
  have log: "stage_log (constructor 1) [?a, ?b, ?c] ''P1'' =
       [\<lparr>stageName = ''Packaged'', authenticator = 1, timestamp = 160\<rparr>,
        \<lparr>stageName = ''Shipped'', authenticator = 1, timestamp = 172\<rparr>]"
    by (simp add: stage_of_def completed_def call_result_def transact_def
        contract_addProduct_def contract_addStage_def hasRole_def constructor_def
        zero_Product_def)
  have none: "\<forall>c\<in>set [?a]. \<forall>n. call_tx c \<noteq> AddStage ''P1'' n"
    by simp
  from history_in_insertion_order [of 1 "[?a, ?b, ?c]" "''P1''" ?a]
  have three: "contract_getProductHistory (run (constructor 1) [?a, ?b, ?c]) ''P1'' =
       Inr [\<lparr>stageName = ''Packaged'', authenticator = 1, timestamp = 160\<rparr>,
            \<lparr>stageName = ''Shipped'', authenticator = 1, timestamp = 172\<rparr>]"
    using reg log by simp
  from history_in_insertion_order [of 1 "[?a]" "''P1''" ?a]
  have one: "contract_getProductHistory (run (constructor 1) [?a]) ''P1'' = Inr []"
    using reg1 none by simp
  show ?thesis
    using three one none by simp
qed

text \<open>
  C9. \<open>productExists\<close> never reverts: in every state and for every identifier it
  returns a boolean. On the ledger reached by any history from the constructor the
  boolean is true exactly when an \<open>addProduct\<close> for the identifier completed in the
  history; for the empty identifier it is always false.
\<close>

theorem productExists_total:
  "(\<exists>b. productExists st pid = Inr b)
   \<and> productExists (run (constructor d) cs) pid = Inr (registered_by (constructor d) cs pid)
   \<and> productExists (run (constructor d) cs) [] = Inr False"
  by (simp add: productExists_def exists_run exists_constructor not_registered_empty)

text \<open>
  C7. A sender without \<open>ADMIN_ROLE\<close> gets the unauthorized revert from both
  \<open>addProduct\<close> and \<open>addStage\<close>, whatever the other arguments are (the role check comes
  before every other check), and the transaction leaves products, stage arrays, role
  grants and the event log as they were.
\<close>

theorem unauthorized_rejected_unchanged:
  assumes "\<not> hasRole st ADMIN_ROLE a"
  shows "contract_addProduct a pid phash st = Inl (AccessControlUnauthorizedAccount a ADMIN_ROLE)
       \<and> contract_addStage a t pid sname st = Inl (AccessControlUnauthorizedAccount a ADMIN_ROLE)
       \<and> transact \<lparr>msg_sender = a, block_timestamp = t, call_tx = AddProduct pid phash\<rparr> st = st
       \<and> transact \<lparr>msg_sender = a, block_timestamp = t, call_tx = AddStage pid sname\<rparr> st = st"
  using assms
  by (simp add: contract_addProduct_def contract_addStage_def transact_def call_result_def)

theorem unauthorized_rejected_unchanged_witness:
  "\<not> hasRole (constructor 1) ADMIN_ROLE 2
   \<and> contract_addProduct 2 ''P1'' ''0xab'' (constructor 1)
       = Inl (AccessControlUnauthorizedAccount 2 ADMIN_ROLE)
   \<and> contract_addStage 2 100 ''P1'' ''Packaged'' (constructor 1)
       = Inl (AccessControlUnauthorizedAccount 2 ADMIN_ROLE)
   \<and> transact \<lparr>msg_sender = 2, block_timestamp = 100, call_tx = AddProduct ''P1'' ''0xab''\<rparr>
       (constructor 1) = constructor 1
   \<and> transact \<lparr>msg_sender = 2, block_timestamp = 100, call_tx = AddStage ''P1'' ''Packaged''\<rparr>
       (constructor 1) = constructor 1"
proof -
  have h: "\<not> hasRole (constructor 1) ADMIN_ROLE 2"
    by (simp add: hasRole_def constructor_def)
  show ?thesis
    using h unauthorized_rejected_unchanged [OF h, of "''P1''" "''0xab''" 100 "''Packaged''"]
    by simp
qed

section \<open>Properties of the fingerprint\<close>

lemma length_be_bytes: "length (be_bytes k n) = k"
  by (induction k arbitrary: n) auto

lemma be_nat_snoc: "be_nat (bs @ [c]) = be_nat bs * 256 + of_char c"
  by (simp add: be_nat_def)

lemma be_nat_be_bytes: "be_nat (be_bytes k n) = n mod 256 ^ k"
proof (induction k arbitrary: n)
  case 0
  then show ?case by (simp add: be_nat_def)
next
  case (Suc k)
  have "n mod (256 * 256 ^ k) = 256 * (n div 256 mod 256 ^ k) + n mod 256"
    by (rule mod_mult2_eq)
  then show ?case
    by (simp add: be_nat_snoc Suc)
qed

lemma length_uint256: "length (uint256 n) = 32"
  by (simp add: uint256_def length_be_bytes)

lemma uint256_inj:
  assumes "uint256 m = uint256 n" and "m < 2 ^ 256" and "n < 2 ^ 256"
  shows "m = n"
proof -
  have "be_nat (uint256 m) = be_nat (uint256 n)" using assms(1) by simp
  then have "m mod 256 ^ 32 = n mod 256 ^ 32"
    by (simp add: uint256_def be_nat_be_bytes)
  moreover have "(256::nat) ^ 32 = 2 ^ 256" by simp
  ultimately show ?thesis using assms(2,3) by simp
qed

lemma enc_string_inj:
  assumes eq: "enc_string s @ r = enc_string t @ r'"
    and s: "length s < 2 ^ 256" and t: "length t < 2 ^ 256"
  shows "s = t \<and> r = r'"
proof -
  from eq have "uint256 (length s) @ (pad_right s @ r) = uint256 (length t) @ (pad_right t @ r')"
    by (simp add: enc_string_def)
  then have u: "uint256 (length s) = uint256 (length t)"
    and p: "pad_right s @ r = pad_right t @ r'"
    by (simp_all add: length_uint256)
  from u s t have len: "length s = length t" by (rule uint256_inj)
  from p have "s @ (replicate ((32 - length s mod 32) mod 32) (CHR 0x00) @ r)
             = t @ (replicate ((32 - length t mod 32) mod 32) (CHR 0x00) @ r')"
    by (simp add: pad_right_def)
  with len show ?thesis by simp
qed

lemma concat_enc_string_inj:
  assumes "length ss = length ts"
    and "concat (map enc_string ss) = concat (map enc_string ts)"
    and "\<forall>s\<in>set ss \<union> set ts. length s < 2 ^ 256"
  shows "ss = ts"
  using assms
proof (induction ss ts rule: list_induct2)
  case Nil
  then show ?case by simp
next
  case (Cons s ss t ts)
  from Cons.prems have "enc_string s @ concat (map enc_string ss)
      = enc_string t @ concat (map enc_string ts)" by simp
  moreover from Cons.prems have "length s < 2 ^ 256" "length t < 2 ^ 256" by simp_all
  ultimately have "s = t \<and> concat (map enc_string ss) = concat (map enc_string ts)"
    by (rule enc_string_inj)
  with Cons show ?case by simp
qed

lemma length_heads: "length (heads off ts) = 32 * length ts"
  by (induction ts arbitrary: off) (auto simp: length_uint256)

lemma abi_encode_inj:
  assumes len: "length ss = length ts"
    and eq: "abi_encode ss = abi_encode ts"
    and bound: "\<forall>s\<in>set ss \<union> set ts. length s < 2 ^ 256"
  shows "ss = ts"
proof -
  have "length (heads (32 * length ss) (map enc_string ss))
      = length (heads (32 * length ts) (map enc_string ts))"
    by (simp add: length_heads len)
  with eq have "concat (map enc_string ss) = concat (map enc_string ts)"
    by (simp add: abi_encode_def)
  with len show ?thesis using bound by (rule concat_enc_string_inj)
qed



section \<open>Properties of the client\<close>

lemma exists_check_eq:
  "exists_check e pid w =
     (case fault e (Call_productExists pid) of
        Some m \<Rightarrow> if \<not> str_includes m ''Product'' then Inl (LedgerFault m) else Inr ()
      | None \<Rightarrow> Inr (),
      sent (Call_productExists pid) w)"
  by (simp add: exists_check_def await_productExists_def productExists_def
      split: option.splits)

lemma contract_addProduct_Inr:
  assumes "contract_addProduct a pid h st = Inr st'"
  shows "exists (products st' pid)" and "productHash (products st' pid) = h"
    and "\<not> exists (products st pid)" and "h \<noteq> []" and "pid \<noteq> []"
    and "events st' = events st @ [ProductAdded pid h]"
  using assms by (auto simp: contract_addProduct_def split: if_splits)

lemma addProduct_success:
  assumes "addProduct P e pid ptype batch w = (Inr res, w')"
  shows "\<exists>x. Date_setFullYear P (clock e) (Date_getFullYear P (clock e) + 2) = Some x
       \<and> res = \<lparr>added_productID = pid,
                 added_productHash = calculateHash P pid ptype batch
                   (Date_toISOString P (clock e)) (Date_toISOString P x)\<rparr>
       \<and> db w' = db w @
            [\<lparr>product_id = pid, product_type = ptype, batch_number = batch,
              manufacturing_date = Date_toISOString P (clock e),
              expiry_date = Date_toISOString P x,
              product_hash = calculateHash P pid ptype batch
                   (Date_toISOString P (clock e)) (Date_toISOString P x)\<rparr>]
       \<and> pid \<notin> product_id ` set (db w)
       \<and> contract_addProduct (wallet e) pid (added_productHash res) (chain w) = Inr (chain w')
       \<and> pid \<noteq> []"
  using assms
  by (auto simp: addProduct_def exists_check_eq await_addProduct_def await_INSERT_def
      toISOString_def sent_def
      split: option.splits sum.splits if_splits)

lemma verifyProduct_row:
  assumes "pid \<noteq> []"
    and "fault e (Query_SELECT pid) = None"
    and "fault e (Call_getProductHash pid) = None"
    and "filter (\<lambda>r. product_id r = pid) (db w) = md # rest"
    and "getProductHash (chain w) pid = Inr h"
    and "toISOString P (Date_parse P (manufacturing_date md)) = Inr mfg"
    and "toISOString P (Date_parse P (expiry_date md)) = Inr expiry"
  shows "verifyProduct P e pid w =
     (Inr \<lparr>vr_productID = pid,
           isAuthentic = (calculateHash P (product_id md) (product_type md) (batch_number md)
                            mfg expiry = h),
           databaseHash = calculateHash P (product_id md) (product_type md) (batch_number md)
                            mfg expiry,
           blockchainHash = h,
           metadata = md\<rparr>,
      sent (Call_getProductHash pid) (sent (Query_SELECT pid) w))"
  using assms
  by (simp add: verifyProduct_def await_SELECT_def await_getProductHash_def sent_def)

text \<open>
  C1. When \<open>addProduct\<close> succeeds and the engine parses each of the two ISO strings it
  produced back to a date that it formats as the same string, a \<open>verifyProduct\<close> for
  the same identifier that follows, with both boundaries answering, returns a result
  with \<open>isAuthentic\<close> true: the hash recomputed from the row equals the hash the
  ledger holds, which is the hash the registration returned.
\<close>

theorem register_then_verify_authentic:
  assumes reg: "addProduct P e pid ptype batch w = (Inr res, w')"
    and rt1: "roundtrips P (Date_toISOString P (clock e))"
    and rt2: "\<forall>x. Date_setFullYear P (clock e) (Date_getFullYear P (clock e) + 2) = Some x
                \<longrightarrow> roundtrips P (Date_toISOString P x)"
    and nf: "fault e' (Query_SELECT pid) = None" "fault e' (Call_getProductHash pid) = None"
  shows "\<exists>v w''. verifyProduct P e' pid w' = (Inr v, w'')
       \<and> isAuthentic v
       \<and> databaseHash v = blockchainHash v
       \<and> blockchainHash v = added_productHash res
       \<and> getProductHash (chain w') pid = Inr (added_productHash res)
       \<and> product_id (metadata v) = pid \<and> product_type (metadata v) = ptype
       \<and> batch_number (metadata v) = batch"
proof -
  from addProduct_success [OF reg] obtain x where
    x: "Date_setFullYear P (clock e) (Date_getFullYear P (clock e) + 2) = Some x"
    and res: "added_productHash res = calculateHash P pid ptype batch
                   (Date_toISOString P (clock e)) (Date_toISOString P x)"
    and db: "db w' = db w @
            [\<lparr>product_id = pid, product_type = ptype, batch_number = batch,
              manufacturing_date = Date_toISOString P (clock e),
              expiry_date = Date_toISOString P x,
              product_hash = calculateHash P pid ptype batch
                   (Date_toISOString P (clock e)) (Date_toISOString P x)\<rparr>]"
    and new: "pid \<notin> product_id ` set (db w)"
    and tx: "contract_addProduct (wallet e) pid (added_productHash res) (chain w) = Inr (chain w')"
    and pid: "pid \<noteq> []"
    by auto
  let ?row = "\<lparr>product_id = pid, product_type = ptype, batch_number = batch,
              manufacturing_date = Date_toISOString P (clock e),
              expiry_date = Date_toISOString P x,
              product_hash = calculateHash P pid ptype batch
                   (Date_toISOString P (clock e)) (Date_toISOString P x)\<rparr>"
  from new have "filter (\<lambda>r. product_id r = pid) (db w) = []"
    by (auto simp: filter_empty_conv)
  with db have sel: "filter (\<lambda>r. product_id r = pid) (db w') = ?row # []"
    by simp
  from contract_addProduct_Inr(1,2) [OF tx]
  have led: "getProductHash (chain w') pid = Inr (added_productHash res)"
    by (simp add: getProductHash_def)
  from rt1 have m: "toISOString P (Date_parse P (manufacturing_date ?row))
      = Inr (Date_toISOString P (clock e))"
    by (simp add: roundtrips_def)
  from rt2 x have ex: "toISOString P (Date_parse P (expiry_date ?row))
      = Inr (Date_toISOString P x)"
    by (simp add: roundtrips_def)
  from verifyProduct_row [OF pid nf sel led m ex] led
  show ?thesis
    by (simp add: res)
qed

text \<open>
  C2. When the store has a row for the identifier, the ledger has the product, both
  dates of the row still parse, and the hash recomputed from the row differs from the
  ledger's, \<open>verifyProduct\<close> does not fail: it returns \<open>isAuthentic\<close> false together
  with both hashes and the row.
\<close>

theorem tampered_row_reported:
  assumes "pid \<noteq> []"
    and "fault e (Query_SELECT pid) = None"
    and "fault e (Call_getProductHash pid) = None"
    and "filter (\<lambda>r. product_id r = pid) (db w) = md # rest"
    and "getProductHash (chain w) pid = Inr h"
    and "toISOString P (Date_parse P (manufacturing_date md)) = Inr mfg"
    and "toISOString P (Date_parse P (expiry_date md)) = Inr expiry"
    and "calculateHash P (product_id md) (product_type md) (batch_number md) mfg expiry \<noteq> h"
  shows "fst (verifyProduct P e pid w) =
     Inr \<lparr>vr_productID = pid,
          isAuthentic = False,
          databaseHash = calculateHash P (product_id md) (product_type md) (batch_number md)
                            mfg expiry,
          blockchainHash = h,
          metadata = md\<rparr>"
  using verifyProduct_row [OF assms(1-7)] assms(8) by simp

text \<open>
  C10. Rewriting the \<open>product_hash\<close> column of the table in any way changes neither
  whether \<open>verifyProduct\<close> fails, nor \<open>isAuthentic\<close>, nor the recomputed hash.
\<close>

theorem isAuthentic_ignores_product_hash:
  "map_sum id isAuthentic
     (fst (verifyProduct P e pid (w\<lparr>db := map (\<lambda>r. r\<lparr>product_hash := f r\<rparr>) (db w)\<rparr>)))
   = map_sum id isAuthentic (fst (verifyProduct P e pid w))
   \<and> map_sum id databaseHash
     (fst (verifyProduct P e pid (w\<lparr>db := map (\<lambda>r. r\<lparr>product_hash := f r\<rparr>) (db w)\<rparr>)))
   = map_sum id databaseHash (fst (verifyProduct P e pid w))"
proof -
  have flt: "filter (\<lambda>r. product_id r = pid) (map (\<lambda>r. r\<lparr>product_hash := f r\<rparr>) xs)
      = map (\<lambda>r. r\<lparr>product_hash := f r\<rparr>) (filter (\<lambda>r. product_id r = pid) xs)" for xs
    by (induction xs) auto
  show ?thesis
    by (auto simp: verifyProduct_def await_SELECT_def await_getProductHash_def sent_def flt
        split: option.splits list.splits sum.splits prod.splits)
qed

subsection \<open>The example registration, evaluated\<close>

lemma reference_dates:
  "utc_toISOString 1750000000000 = ''2025-06-15T15:06:40.000Z''"
  "utc_setFullYear 1750000000000 (utc_getFullYear 1750000000000 + 2) = Some 1813072000000"
  "utc_toISOString 1813072000000 = ''2027-06-15T15:06:40.000Z''"
  "iso_parse ''2025-06-15T15:06:40.000Z'' = Some 1750000000000"
  "iso_parse ''2027-06-15T15:06:40.000Z'' = Some 1813072000000"
  by code_simp+

lemmas reference_simps =
  reference_platform_def calm_env_def fresh_world_def reference_dates toISOString_def
  exists_check_eq await_addProduct_def await_INSERT_def await_SELECT_def
  await_getProductHash_def sent_def calculateHash_def contract_addProduct_def hasRole_def
  constructor_def zero_Product_def getProductHash_def productExists_def


lemma register_P1:
  "addProduct reference_platform calm_env ''P1'' ''Aspirin'' ''B001'' fresh_world
     = (Inr \<lparr>added_productID = ''P1'', added_productHash = aspirin_hash\<rparr>, registered_world)"
  by (simp add: addProduct_def reference_simps registered_world_def aspirin_row_def
      aspirin_hash_def)

lemma roundtrips_reference:
  "roundtrips reference_platform ''2025-06-15T15:06:40.000Z''"
  "roundtrips reference_platform ''2027-06-15T15:06:40.000Z''"
  by (simp_all add: roundtrips_def reference_simps)

text \<open>
  The specification's example: after \<open>Register("P1", "Aspirin", "B001")\<close> succeeds,
  \<open>Verify("P1")\<close> is authentic.
\<close>

theorem register_then_verify_authentic_witness:
  "fst (addProduct reference_platform calm_env ''P1'' ''Aspirin'' ''B001'' fresh_world)
     = Inr \<lparr>added_productID = ''P1'', added_productHash = aspirin_hash\<rparr>
   \<and> roundtrips reference_platform (Date_toISOString reference_platform (clock calm_env))
   \<and> roundtrips reference_platform (Date_toISOString reference_platform 1813072000000)
   \<and> (\<exists>v w''. verifyProduct reference_platform calm_env ''P1''
                 (snd (addProduct reference_platform calm_env ''P1'' ''Aspirin'' ''B001''
                    fresh_world)) = (Inr v, w'')
        \<and> isAuthentic v \<and> databaseHash v = blockchainHash v
        \<and> blockchainHash v = aspirin_hash \<and> metadata v = aspirin_row)"
proof -
  have rt1: "roundtrips reference_platform (Date_toISOString reference_platform (clock calm_env))"
    using roundtrips_reference by (simp add: reference_simps)
  have rt2: "\<forall>x. Date_setFullYear reference_platform (clock calm_env)
                  (Date_getFullYear reference_platform (clock calm_env) + 2) = Some x
              \<longrightarrow> roundtrips reference_platform (Date_toISOString reference_platform x)"
    using roundtrips_reference by (simp add: reference_simps)
  have nf: "fault calm_env (Query_SELECT ''P1'') = None"
    "fault calm_env (Call_getProductHash ''P1'') = None"
    by (simp_all add: calm_env_def)
  from register_then_verify_authentic [OF register_P1 rt1 rt2 nf]
  obtain v w'' where v: "verifyProduct reference_platform calm_env ''P1'' registered_world = (Inr v, w'')"
    "isAuthentic v" "databaseHash v = blockchainHash v" "blockchainHash v = aspirin_hash"
    by auto
  moreover from v(1) have "metadata v = aspirin_row"
    by (auto simp: verifyProduct_def reference_simps registered_world_def aspirin_row_def
        split: sum.splits if_splits)
  moreover have "roundtrips reference_platform (Date_toISOString reference_platform 1813072000000)"
    using roundtrips_reference by (simp add: reference_simps)
  ultimately show ?thesis
    using rt1 by (simp add: register_P1)
qed

lemma ibuprofen_differs:
  "calculateHash reference_platform ''P1'' ''Ibuprofen'' ''B001''
     ''2025-06-15T15:06:40.000Z'' ''2027-06-15T15:06:40.000Z'' \<noteq> aspirin_hash"
proof
  assume "calculateHash reference_platform ''P1'' ''Ibuprofen'' ''B001''
     ''2025-06-15T15:06:40.000Z'' ''2027-06-15T15:06:40.000Z'' = aspirin_hash"
  then have "abi_encode [''P1'', ''Ibuprofen'', ''B001'', ''2025-06-15T15:06:40.000Z'',
                ''2027-06-15T15:06:40.000Z'']
           = abi_encode [''P1'', ''Aspirin'', ''B001'', ''2025-06-15T15:06:40.000Z'',
                ''2027-06-15T15:06:40.000Z'']"
    by (simp add: aspirin_hash_def calculateHash_def reference_platform_def)
  then have "[''P1'', ''Ibuprofen'', ''B001'', ''2025-06-15T15:06:40.000Z'',
                ''2027-06-15T15:06:40.000Z'']
           = [''P1'', ''Aspirin'', ''B001'', ''2025-06-15T15:06:40.000Z'',
                ''2027-06-15T15:06:40.000Z'']"
    by (rule abi_encode_inj [rotated]) simp_all
  then show False by simp
qed

text \<open>
  The specification's example: the product type of the row of \<open>P1\<close> is changed to
  \<open>Ibuprofen\<close>.
\<close>

theorem tampered_row_reported_witness:
  "fst (verifyProduct reference_platform calm_env ''P1'' tampered_world) =
     Inr \<lparr>vr_productID = ''P1'',
          isAuthentic = False,
          databaseHash = calculateHash reference_platform ''P1'' ''Ibuprofen'' ''B001''
     ''2025-06-15T15:06:40.000Z'' ''2027-06-15T15:06:40.000Z'',
          blockchainHash = aspirin_hash,
          metadata = aspirin_row\<lparr>product_type := ''Ibuprofen''\<rparr>\<rparr>
   \<and> databaseHash (projr (fst (verifyProduct reference_platform calm_env ''P1'' tampered_world)))
     \<noteq> blockchainHash (projr (fst (verifyProduct reference_platform calm_env ''P1'' tampered_world)))"
proof -
  let ?md = "aspirin_row\<lparr>product_type := ''Ibuprofen''\<rparr>"
  have 1: "''P1'' \<noteq> []" by simp
  have 2: "fault calm_env (Query_SELECT ''P1'') = None"
    and 3: "fault calm_env (Call_getProductHash ''P1'') = None"
    by (simp_all add: calm_env_def)
  have 4: "filter (\<lambda>r. product_id r = ''P1'') (db tampered_world) = ?md # []"
    by (simp add: tampered_world_def aspirin_row_def)
  have 5: "getProductHash (chain tampered_world) ''P1'' = Inr aspirin_hash"
    by (simp add: tampered_world_def registered_world_def getProductHash_def)
  have 6: "toISOString reference_platform (Date_parse reference_platform (manufacturing_date ?md))
      = Inr ''2025-06-15T15:06:40.000Z''"
    using roundtrips_reference(1) by (simp add: roundtrips_def aspirin_row_def)
  have 7: "toISOString reference_platform (Date_parse reference_platform (expiry_date ?md))
      = Inr ''2027-06-15T15:06:40.000Z''"
    using roundtrips_reference(2) by (simp add: roundtrips_def aspirin_row_def)
  have 8: "calculateHash reference_platform (product_id ?md) (product_type ?md) (batch_number ?md)
      ''2025-06-15T15:06:40.000Z'' ''2027-06-15T15:06:40.000Z'' \<noteq> aspirin_hash"
    using ibuprofen_differs by (simp add: aspirin_row_def)
  from tampered_row_reported [OF 1 2 3 4 5 6 7 8] ibuprofen_differs
  show ?thesis
    by (simp add: aspirin_row_def)
qed

text \<open>
  C4. What \<open>addProduct\<close> does for an identifier the ledger already has, when the
  inputs are valid and the ledger client answers: the existence check lets it pass (the
  \<open>Error\<close> thrown for an existing product has \<open>Product\<close> in its message, so the
  \<open>catch\<close> around the check drops it), the client sends the \<open>addProduct\<close>
  transaction, and the function fails with the revert of the contract, not with the
  client's own \<open>already exists\<close> error.
\<close>

theorem duplicate_passes_existence_check:
  assumes ex: "productExists (chain w) pid = Inr True"
    and valid: "pid \<noteq> []" "ptype \<noteq> []" "batch \<noteq> []"
    and x: "Date_setFullYear P (clock e) (Date_getFullYear P (clock e) + 2) = Some x"
    and f1: "fault e (Call_productExists pid) = None"
    and f2: "fault e (Send_addProduct pid (calculateHash P pid ptype batch
                (Date_toISOString P (clock e)) (Date_toISOString P x))) = None"
  shows "exists_check e pid w = (Inr (), sent (Call_productExists pid) w)
       \<and> isl (contract_addProduct (wallet e) pid
               (calculateHash P pid ptype batch
                  (Date_toISOString P (clock e)) (Date_toISOString P x)) (chain w))
       \<and> addProduct P e pid ptype batch w =
           (Inl (CallException (projl (contract_addProduct (wallet e) pid
               (calculateHash P pid ptype batch
                  (Date_toISOString P (clock e)) (Date_toISOString P x)) (chain w)))),
            sent (Send_addProduct pid (calculateHash P pid ptype batch
                  (Date_toISOString P (clock e)) (Date_toISOString P x)))
              (sent (Call_productExists pid) w))
       \<and> fst (addProduct P e pid ptype batch w)
           \<noteq> Inl (Error (''Product '' @ pid @ '' already exists on blockchain''))"
proof -
  let ?h = "calculateHash P pid ptype batch (Date_toISOString P (clock e)) (Date_toISOString P x)"
  have chk: "exists_check e pid w = (Inr (), sent (Call_productExists pid) w)"
    using f1 by (simp add: exists_check_eq)
  from ex have "exists (products (chain w) pid)"
    by (simp add: productExists_def)
  then have rev: "isl (contract_addProduct (wallet e) pid ?h (chain w))"
    by (simp add: contract_addProduct_def)
  then obtain r where r: "contract_addProduct (wallet e) pid ?h (chain w) = Inl r"
    by (cases "contract_addProduct (wallet e) pid ?h (chain w)") auto
  have run: "addProduct P e pid ptype batch w =
      (Inl (CallException r), sent (Send_addProduct pid ?h) (sent (Call_productExists pid) w))"
    using valid x f2 r
    by (simp add: addProduct_def toISOString_def chk await_addProduct_def sent_def)
  show ?thesis
    using chk rev run r by simp
qed

text \<open>
  A second \<open>Register("P1", ...)\<close>: the transaction is sent and reverts; ledger and table
  stay as they were.
\<close>

theorem duplicate_passes_existence_check_witness:
  "productExists (chain registered_world) ''P1'' = Inr True
   \<and> exists_check calm_env ''P1'' registered_world
       = (Inr (), sent (Call_productExists ''P1'') registered_world)
   \<and> addProduct reference_platform calm_env ''P1'' ''Aspirin'' ''B001'' registered_world
       = (Inl (CallException (Require ''Product already exists'')),
          registered_world\<lparr>trace := trace registered_world @
             [Call_productExists ''P1'', Send_addProduct ''P1'' aspirin_hash]\<rparr>)"
proof -
  have ex: "productExists (chain registered_world) ''P1'' = Inr True"
    by (simp add: registered_world_def productExists_def)
  have x: "Date_setFullYear reference_platform (clock calm_env)
             (Date_getFullYear reference_platform (clock calm_env) + 2) = Some 1813072000000"
    by (simp add: reference_platform_def calm_env_def reference_dates)
  have f1: "fault calm_env (Call_productExists ''P1'') = None"
    by (simp add: calm_env_def)
  have f2: "fault calm_env (Send_addProduct ''P1'' (calculateHash reference_platform ''P1''
              ''Aspirin'' ''B001'' (Date_toISOString reference_platform (clock calm_env))
              (Date_toISOString reference_platform 1813072000000))) = None"
    by (simp add: calm_env_def)
  have h: "calculateHash reference_platform ''P1''
              ''Aspirin'' ''B001'' (Date_toISOString reference_platform (clock calm_env))
              (Date_toISOString reference_platform 1813072000000) = aspirin_hash"
    by (simp add: aspirin_hash_def reference_platform_def calm_env_def reference_dates)
  have rev: "contract_addProduct (wallet calm_env) ''P1'' aspirin_hash (chain registered_world)
      = Inl (Require ''Product already exists'')"
    by (simp add: contract_addProduct_def registered_world_def calm_env_def hasRole_def
        constructor_def aspirin_hash_def calculateHash_def reference_platform_def)
  from duplicate_passes_existence_check
    [where ptype = "''Aspirin''" and batch = "''B001''", OF ex _ _ _ x f1 f2]
  show ?thesis
    using ex by (simp add: h rev sent_def)
qed

text \<open>
  C5, as amended. When the inputs are valid, the existence check lets the registration
  pass, the ledger transaction completes and the insert that follows fails, then
  \<open>addProduct\<close> fails with exactly the error the insert raised (the store's conflict,
  or the store client's rejection with its message): the error is neither swallowed nor
  replaced. The table is as it was, and the ledger has the product with the hash of the
  row that was not stored.
\<close>

theorem store_failure_propagates_unchanged:
  assumes valid: "pid \<noteq> []" "ptype \<noteq> []" "batch \<noteq> []"
    and x: "Date_setFullYear P (clock e) (Date_getFullYear P (clock e) + 2) = Some x"
    and chk: "exists_check e pid w = (Inr (), w1)"
    and tx: "await_addProduct e pid
               (calculateHash P pid ptype batch (Date_toISOString P (clock e))
                  (Date_toISOString P x)) w1 = (Inr (), w2)"
    and ins: "await_INSERT e
               \<lparr>product_id = pid, product_type = ptype, batch_number = batch,
                manufacturing_date = Date_toISOString P (clock e),
                expiry_date = Date_toISOString P x,
                product_hash = calculateHash P pid ptype batch
                  (Date_toISOString P (clock e)) (Date_toISOString P x)\<rparr> w2
             = (Inl err, w3)"
  shows "addProduct P e pid ptype batch w = (Inl err, w3)
       \<and> (err = StoreConflict \<or> (\<exists>m. err = StoreFault m))
       \<and> db w3 = db w
       \<and> productExists (chain w3) pid = Inr True
       \<and> getProductHash (chain w3) pid
           = Inr (calculateHash P pid ptype batch (Date_toISOString P (clock e))
                   (Date_toISOString P x))"
proof -
  let ?h = "calculateHash P pid ptype batch (Date_toISOString P (clock e))
              (Date_toISOString P x)"
  have run: "addProduct P e pid ptype batch w = (Inl err, w3)"
    using valid x chk tx ins by (simp add: addProduct_def toISOString_def)
  from chk have w1: "db w1 = db w" "chain w1 = chain w"
    by (auto simp: exists_check_eq sent_def)
  from tx obtain st' where st': "contract_addProduct (wallet e) pid ?h (chain w1) = Inr st'"
    and w2: "db w2 = db w1" "chain w2 = st'"
    by (auto simp: await_addProduct_def sent_def split: option.splits sum.splits)
  from ins have w3: "db w3 = db w2" "chain w3 = chain w2"
    and err: "err = StoreConflict \<or> (\<exists>m. err = StoreFault m)"
    by (auto simp: await_INSERT_def sent_def split: option.splits if_splits)
  from contract_addProduct_Inr(1,2) [OF st'] w2 w3
  have "productExists (chain w3) pid = Inr True" "getProductHash (chain w3) pid = Inr ?h"
    by (simp_all add: productExists_def getProductHash_def)
  with run err w1 w2 w3 show ?thesis by simp
qed

lemma register_store_down:
  "addProduct reference_platform store_down_env ''P1'' ''Aspirin'' ''B001'' fresh_world
     = (Inl (StoreFault ''Connection terminated unexpectedly''),
        registered_world\<lparr>db := []\<rparr>)"
  by (simp add: addProduct_def store_down_env_def reference_simps registered_world_def
      aspirin_row_def aspirin_hash_def)

text \<open>
  C5 as stated does not hold: with the store unreachable, a registration that has
  already written the ledger fails with the very error that a verification fails with
  when nothing was written at all.
\<close>

theorem partial_commit_not_distinct:
  "fst (addProduct reference_platform store_down_env ''P1'' ''Aspirin'' ''B001'' fresh_world)
     = Inl (StoreFault ''Connection terminated unexpectedly'')
   \<and> productExists
       (chain (snd (addProduct reference_platform store_down_env ''P1'' ''Aspirin'' ''B001''
          fresh_world))) ''P1'' = Inr True
   \<and> db (snd (addProduct reference_platform store_down_env ''P1'' ''Aspirin'' ''B001''
          fresh_world)) = []
   \<and> fst (verifyProduct reference_platform store_down_env ''P1'' fresh_world)
     = Inl (StoreFault ''Connection terminated unexpectedly'')
   \<and> productExists
       (chain (snd (verifyProduct reference_platform store_down_env ''P1'' fresh_world)))
       ''P1'' = Inr False"
proof -
  have reg: "fst (addProduct reference_platform store_down_env ''P1'' ''Aspirin'' ''B001''
        fresh_world) = Inl (StoreFault ''Connection terminated unexpectedly'')
      \<and> productExists
       (chain (snd (addProduct reference_platform store_down_env ''P1'' ''Aspirin'' ''B001''
          fresh_world))) ''P1'' = Inr True
      \<and> db (snd (addProduct reference_platform store_down_env ''P1'' ''Aspirin'' ''B001''
          fresh_world)) = []"
    by (simp add: register_store_down registered_world_def productExists_def)
  have ver: "verifyProduct reference_platform store_down_env ''P1'' fresh_world
      = (Inl (StoreFault ''Connection terminated unexpectedly''),
         fresh_world\<lparr>trace := [Query_SELECT ''P1'']\<rparr>)"
    by (simp add: verifyProduct_def store_down_env_def calm_env_def await_SELECT_def sent_def
        fresh_world_def)
  have "productExists (chain (fresh_world\<lparr>trace := [Query_SELECT ''P1'']\<rparr>)) ''P1'' = Inr False"
    by (simp add: productExists_def fresh_world_def constructor_def zero_Product_def)
  with reg ver show ?thesis by simp
qed

text \<open>
  A registration over a stale table: the existence check passes, the ledger is written,
  the insert meets the old row, and the registration fails with the store's conflict.
\<close>

theorem store_failure_propagates_unchanged_witness:
  "exists_check calm_env ''P1'' stale_store_world
     = (Inr (), sent (Call_productExists ''P1'') stale_store_world)
   \<and> await_addProduct calm_env ''P1'' aspirin_hash
       (sent (Call_productExists ''P1'') stale_store_world)
     = (Inr (), registered_world\<lparr>trace := [Call_productExists ''P1'',
                                              Send_addProduct ''P1'' aspirin_hash]\<rparr>)
   \<and> await_INSERT calm_env aspirin_row
       (registered_world\<lparr>trace := [Call_productExists ''P1'',
                                     Send_addProduct ''P1'' aspirin_hash]\<rparr>)
     = (Inl StoreConflict, registered_world)
   \<and> addProduct reference_platform calm_env ''P1'' ''Aspirin'' ''B001'' stale_store_world
     = (Inl StoreConflict, registered_world)
   \<and> db registered_world = db stale_store_world
   \<and> productExists (chain registered_world) ''P1'' = Inr True
   \<and> getProductHash (chain registered_world) ''P1'' = Inr aspirin_hash"
proof -
  let ?w1 = "sent (Call_productExists ''P1'') stale_store_world"
  let ?w2 = "registered_world\<lparr>trace := [Call_productExists ''P1'',
                                           Send_addProduct ''P1'' aspirin_hash]\<rparr>"
  have x: "Date_setFullYear reference_platform (clock calm_env)
             (Date_getFullYear reference_platform (clock calm_env) + 2) = Some 1813072000000"
    by (simp add: reference_platform_def calm_env_def reference_dates)
  have h: "calculateHash reference_platform ''P1'' ''Aspirin'' ''B001''
             (Date_toISOString reference_platform (clock calm_env))
             (Date_toISOString reference_platform 1813072000000) = aspirin_hash"
    by (simp add: aspirin_hash_def reference_platform_def calm_env_def reference_dates)
  have r: "\<lparr>product_id = ''P1'', product_type = ''Aspirin'', batch_number = ''B001'',
            manufacturing_date = Date_toISOString reference_platform (clock calm_env),
            expiry_date = Date_toISOString reference_platform 1813072000000,
            product_hash = aspirin_hash\<rparr> = aspirin_row"
    by (simp add: aspirin_row_def reference_platform_def calm_env_def reference_dates)
  have chk: "exists_check calm_env ''P1'' stale_store_world = (Inr (), ?w1)"
    by (simp add: exists_check_eq calm_env_def)
  have tx: "await_addProduct calm_env ''P1'' aspirin_hash ?w1 = (Inr (), ?w2)"
    by (simp add: await_addProduct_def calm_env_def sent_def stale_store_world_def
        fresh_world_def registered_world_def contract_addProduct_def hasRole_def
        constructor_def zero_Product_def aspirin_hash_def calculateHash_def
        reference_platform_def)
  have ins: "await_INSERT calm_env aspirin_row ?w2 = (Inl StoreConflict, registered_world)"
    by (simp add: await_INSERT_def calm_env_def sent_def registered_world_def aspirin_row_def)
  from store_failure_propagates_unchanged
    [where P = reference_platform and ptype = "''Aspirin''" and batch = "''B001''",
     OF _ _ _ x chk, unfolded h r, OF _ _ _ tx ins]
  show ?thesis
    using chk tx ins
    by (simp add: stale_store_world_def registered_world_def)
qed

text \<open>
  C6. The requests one \<open>addProduct\<close> sends are a prefix of: existence call, ledger
  transaction, insert. An insert is sent only after the ledger transaction was sent and
  completed; when the ledger transaction is rejected or reverts, the function fails
  right there, and ledger and table are as they were; the table changes only by an
  insert.
\<close>

theorem ledger_write_precedes_store_write:
  "\<exists>new. trace (snd (addProduct P e pid ptype batch w)) = trace w @ new
     \<and> (\<forall>r. Query_INSERT r \<in> set new \<longrightarrow>
           (\<exists>h. new = [Call_productExists pid, Send_addProduct pid h, Query_INSERT r]
              \<and> fault e (Send_addProduct pid h) = None
              \<and> contract_addProduct (wallet e) pid h (chain w)
                  = Inr (chain (snd (addProduct P e pid ptype batch w)))))
     \<and> (\<forall>h. Send_addProduct pid h \<in> set new
            \<and> (fault e (Send_addProduct pid h) \<noteq> None
                \<or> isl (contract_addProduct (wallet e) pid h (chain w))) \<longrightarrow>
           isl (fst (addProduct P e pid ptype batch w))
           \<and> new = [Call_productExists pid, Send_addProduct pid h]
           \<and> db (snd (addProduct P e pid ptype batch w)) = db w
           \<and> chain (snd (addProduct P e pid ptype batch w)) = chain w)
     \<and> (db (snd (addProduct P e pid ptype batch w)) \<noteq> db w \<longrightarrow>
           (\<exists>r. Query_INSERT r \<in> set new))"
  by (auto simp: addProduct_def exists_check_eq await_addProduct_def await_INSERT_def
      toISOString_def sent_def split: option.splits sum.splits if_splits)

lemma register_outsider:
  "addProduct reference_platform outsider_env ''P1'' ''Aspirin'' ''B001'' fresh_world
     = (Inl (CallException (AccessControlUnauthorizedAccount 2 ADMIN_ROLE)),
        fresh_world\<lparr>trace := [Call_productExists ''P1'', Send_addProduct ''P1'' aspirin_hash]\<rparr>)"
  by (simp add: addProduct_def outsider_env_def reference_simps aspirin_hash_def)

text \<open>
  A registration by the deployer's wallet sends all three requests in order; one by a
  wallet without the role stops at the reverted transaction.
\<close>

theorem ledger_write_precedes_store_write_witness:
  "trace (snd (addProduct reference_platform calm_env ''P1'' ''Aspirin'' ''B001'' fresh_world))
     = [Call_productExists ''P1'', Send_addProduct ''P1'' aspirin_hash, Query_INSERT aspirin_row]
   \<and> contract_addProduct (wallet calm_env) ''P1'' aspirin_hash (chain fresh_world)
     = Inr (chain (snd (addProduct reference_platform calm_env ''P1'' ''Aspirin'' ''B001''
         fresh_world)))
   \<and> isl (contract_addProduct (wallet outsider_env) ''P1'' aspirin_hash (chain fresh_world))
   \<and> trace (snd (addProduct reference_platform outsider_env ''P1'' ''Aspirin'' ''B001''
         fresh_world))
     = [Call_productExists ''P1'', Send_addProduct ''P1'' aspirin_hash]
   \<and> isl (fst (addProduct reference_platform outsider_env ''P1'' ''Aspirin'' ''B001''
         fresh_world))
   \<and> db (snd (addProduct reference_platform outsider_env ''P1'' ''Aspirin'' ''B001''
         fresh_world)) = db fresh_world"
proof -
  from ledger_write_precedes_store_write
    [of reference_platform calm_env "''P1''" "''Aspirin''" "''B001''" fresh_world]
  obtain new where
    t: "trace (snd (addProduct reference_platform calm_env ''P1'' ''Aspirin'' ''B001''
          fresh_world)) = trace fresh_world @ new"
    and ins: "\<forall>r. Query_INSERT r \<in> set new \<longrightarrow>
           (\<exists>h. new = [Call_productExists ''P1'', Send_addProduct ''P1'' h, Query_INSERT r]
              \<and> fault calm_env (Send_addProduct ''P1'' h) = None
              \<and> contract_addProduct (wallet calm_env) ''P1'' h (chain fresh_world)
                  = Inr (chain (snd (addProduct reference_platform calm_env ''P1''
                       ''Aspirin'' ''B001'' fresh_world))))"
    by blast
  have tf: "trace fresh_world = []" and df: "db fresh_world = []"
    by (simp_all add: fresh_world_def)
  from t have new: "new = [Call_productExists ''P1'', Send_addProduct ''P1'' aspirin_hash,
      Query_INSERT aspirin_row]"
    by (simp add: register_P1 registered_world_def tf)
  with ins have ok: "contract_addProduct (wallet calm_env) ''P1'' aspirin_hash (chain fresh_world)
     = Inr (chain (snd (addProduct reference_platform calm_env ''P1'' ''Aspirin'' ''B001''
         fresh_world)))"
    by auto
  from ledger_write_precedes_store_write
    [of reference_platform outsider_env "''P1''" "''Aspirin''" "''B001''" fresh_world]
  obtain new' where
    t': "trace (snd (addProduct reference_platform outsider_env ''P1'' ''Aspirin'' ''B001''
          fresh_world)) = trace fresh_world @ new'"
    and fl: "\<forall>h. Send_addProduct ''P1'' h \<in> set new'
            \<and> (fault outsider_env (Send_addProduct ''P1'' h) \<noteq> None
                \<or> isl (contract_addProduct (wallet outsider_env) ''P1'' h (chain fresh_world)))
           \<longrightarrow>
           isl (fst (addProduct reference_platform outsider_env ''P1'' ''Aspirin'' ''B001''
                  fresh_world))
           \<and> new' = [Call_productExists ''P1'', Send_addProduct ''P1'' h]
           \<and> db (snd (addProduct reference_platform outsider_env ''P1'' ''Aspirin'' ''B001''
                  fresh_world)) = db fresh_world
           \<and> chain (snd (addProduct reference_platform outsider_env ''P1'' ''Aspirin''
                  ''B001'' fresh_world)) = chain fresh_world"
    by blast
  from t' have new': "new' = [Call_productExists ''P1'', Send_addProduct ''P1'' aspirin_hash]"
    by (simp add: register_outsider tf)
  have rev: "isl (contract_addProduct (wallet outsider_env) ''P1'' aspirin_hash
      (chain fresh_world))"
    by (simp add: contract_addProduct_def outsider_env_def calm_env_def fresh_world_def
        hasRole_def constructor_def)
  from fl new' rev have
    "isl (fst (addProduct reference_platform outsider_env ''P1'' ''Aspirin'' ''B001''
                  fresh_world))
     \<and> db (snd (addProduct reference_platform outsider_env ''P1'' ''Aspirin'' ''B001''
                  fresh_world)) = db fresh_world"
    by auto
  with t t' new new' ok rev show ?thesis
    by (simp add: tf)
qed

end
